theory Spec2Isabelle
  imports Main "HOL-Library.Word"
begin

section \<open>FilesystemEventMonitor: data model\<close>

text \<open>
  The class \<^verbatim>\<open>FilesystemEventMonitor\<close> of \<^verbatim>\<open>filesystem_event_monitor.hpp\<close> keeps
  two inotify watch descriptors (one on the parent directory, one on the file), and
  decodes the byte buffer filled by an asynchronous read into \<^verbatim>\<open>inotify_event\<close>
  records. A C \<^verbatim>\<open>int\<close> and a \<^verbatim>\<open>uint32_t\<close> are 32-bit words; the descriptors are
  only ever compared for equality (with each other and with \<open>-1\<close>), so the word
  \<open>- 1\<close> stands for the sentinel. The buffer is a list of \<^verbatim>\<open>char\<close>.
\<close>

type_synonym cint = "32 word"
type_synonym uint32 = "32 word"

text \<open>
  Everything the monitor does to the outside world is recorded, in order, in a trace:
  the system calls it makes (with the value the kernel returned for a registration),
  the asynchronous read it issues, and the lines it prints. The two lines printed by
  \<^verbatim>\<open>readEvents\<close> are the dispatched events; the others are narration of the
  add and remove operations. A path operand is kept as its characters.
\<close>

datatype action =
    InotifyInit cint
  | InotifyAddWatch string cint
  | InotifyRmWatch cint
  | CloseFd cint
  | AsyncReadSome
  | CoutLine string string
  | CerrLine string string
  | DirEventLine string string string
  | FileEventLine string string

text \<open>
  The members of the class. \<open>pathname\<close> is the target path as given;
  \<open>parentPath\<close> and \<open>fileName\<close> stand for \<^verbatim>\<open>pathname.parent_path()\<close> and
  \<^verbatim>\<open>pathname.filename()\<close>, whose computation belongs to the standard library and
  is taken as given. \<open>addWatchResults\<close> is the environment: the values the kernel
  will return to the successive calls of \<^verbatim>\<open>inotify_add_watch\<close>, in call order
  (a call beyond the script fails with \<open>-1\<close>).
\<close>

record monitor =
  inotifyFd :: cint
  dirWatchDesc :: cint
  fileWatchDesc :: cint
  pathname :: string
  parentPath :: string
  fileName :: string
  addWatchResults :: "cint list"
  trace :: "action list"

definition emit :: "action \<Rightarrow> monitor \<Rightarrow> monitor" where
  "emit a st = st\<lparr>trace := trace st @ [a]\<rparr>"

definition inotify_add_watch :: "string \<Rightarrow> monitor \<Rightarrow> cint \<times> monitor" where
  "inotify_add_watch p st =
     (case addWatchResults st of
        [] \<Rightarrow> (- 1, emit (InotifyAddWatch p (- 1)) st)
      | r # rs \<Rightarrow> (r, emit (InotifyAddWatch p r) (st\<lparr>addWatchResults := rs\<rparr>)))"

definition inotify_rm_watch :: "cint \<Rightarrow> monitor \<Rightarrow> monitor" where
  "inotify_rm_watch w st = emit (InotifyRmWatch w) st"

section \<open>Adding and removing the two watches\<close>

definition addWatchOnDir :: "monitor \<Rightarrow> bool \<times> monitor" where
  "addWatchOnDir st =
     (let (r, st1) = inotify_add_watch (parentPath st) st;
          st2 = st1\<lparr>dirWatchDesc := r\<rparr>
      in if dirWatchDesc st2 = - 1
         then (False, emit (CerrLine ''inotify_add_watch failed for directory: '' (parentPath st2)) st2)
         else (True, emit (CoutLine ''Add inotify watcher on '' (parentPath st2)) st2))"

definition rmWatchOnDir :: "monitor \<Rightarrow> monitor" where
  "rmWatchOnDir st =
     (if dirWatchDesc st \<noteq> - 1
      then (let st1 = emit (CoutLine ''Remove inotify watcher on '' (parentPath st)) st;
                st2 = inotify_rm_watch (dirWatchDesc st1) st1
            in st2\<lparr>dirWatchDesc := - 1\<rparr>)
      else st)"

definition addWatchOnFile :: "monitor \<Rightarrow> bool \<times> monitor" where
  "addWatchOnFile st =
     (let (r, st1) = inotify_add_watch (pathname st) st;
          st2 = st1\<lparr>fileWatchDesc := r\<rparr>
      in if fileWatchDesc st2 = - 1
         then (False, emit (CerrLine ''inotify_add_watch failed for file: '' (pathname st2)) st2)
         else (True, emit (CoutLine ''Add inotify watcher on '' (fileName st2)) st2))"

definition rmWatchOnFile :: "monitor \<Rightarrow> monitor" where
  "rmWatchOnFile st =
     (if fileWatchDesc st \<noteq> - 1
      then (let st1 = emit (CoutLine ''Remove inotify watcher on '' (fileName st)) st;
                st2 = inotify_rm_watch (fileWatchDesc st1) st1
            in st2\<lparr>fileWatchDesc := - 1\<rparr>)
      else st)"

section \<open>Event masks and their descriptions\<close>

text \<open>
  The event bits are those of the Linux header \<^verbatim>\<open>sys/inotify.h\<close>, which the
  source includes and which is not part of the repository.
\<close>

definition IN_ACCESS :: uint32 where "IN_ACCESS = 0x001"
definition IN_MODIFY :: uint32 where "IN_MODIFY = 0x002"
definition IN_ATTRIB :: uint32 where "IN_ATTRIB = 0x004"
definition IN_CLOSE_WRITE :: uint32 where "IN_CLOSE_WRITE = 0x008"
definition IN_CLOSE_NOWRITE :: uint32 where "IN_CLOSE_NOWRITE = 0x010"
definition IN_OPEN :: uint32 where "IN_OPEN = 0x020"
definition IN_MOVED_FROM :: uint32 where "IN_MOVED_FROM = 0x040"
definition IN_MOVED_TO :: uint32 where "IN_MOVED_TO = 0x080"
definition IN_CREATE :: uint32 where "IN_CREATE = 0x100"
definition IN_DELETE :: uint32 where "IN_DELETE = 0x200"
definition IN_DELETE_SELF :: uint32 where "IN_DELETE_SELF = 0x400"
definition IN_MOVE_SELF :: uint32 where "IN_MOVE_SELF = 0x800"

lemmas IN_defs =
  IN_ACCESS_def IN_MODIFY_def IN_ATTRIB_def IN_CLOSE_WRITE_def IN_CLOSE_NOWRITE_def
  IN_OPEN_def IN_MOVED_FROM_def IN_MOVED_TO_def IN_CREATE_def IN_DELETE_def
  IN_DELETE_SELF_def IN_MOVE_SELF_def

text \<open>The \<^verbatim>\<open>switch\<close> of \<^verbatim>\<open>getEventString\<close>, case by case in the source's order.\<close>

definition getEventString :: "uint32 \<Rightarrow> string" where
  "getEventString m =
     (if m = IN_ACCESS then ''IN_ACCESS - File was accessed.''
      else if m = IN_ATTRIB then ''IN_ATTRIB - Metadata changed.''
      else if m = IN_CLOSE_WRITE then ''IN_CLOSE_WRITE - File opened for writing was closed.''
      else if m = IN_CLOSE_NOWRITE
        then ''IN_CLOSE_NOWRITE - File or directory not opened for writing was closed.''
      else if m = IN_CREATE then ''IN_CREATE - File/directory created in watched directory.''
      else if m = IN_DELETE then ''IN_DELETE - File/directory deleted from watched directory.''
      else if m = IN_DELETE_SELF
        then ''IN_DELETE_SELF - Watched file/directory was itself deleted.''
      else if m = IN_MODIFY then ''IN_MODIFY - File was modified.''
      else if m = IN_MOVE_SELF then ''IN_MOVE_SELF -  Watched file/directory was itself moved.''
      else if m = IN_MOVED_FROM
        then ''IN_MOVED_FROM - Generated for the directory containing the old filename when a file is renamed.''
      else if m = IN_MOVED_TO
        then ''IN_MOVED_TO - Generated for the directory containing the new filename when a file is renamed.''
      else if m = IN_OPEN then ''IN_OPEN - File or directory was opened.''
      else '''')"

definition knownMasks :: "uint32 list" where
  "knownMasks =
     [IN_ACCESS, IN_ATTRIB, IN_CLOSE_WRITE, IN_CLOSE_NOWRITE, IN_CREATE, IN_DELETE,
      IN_DELETE_SELF, IN_MODIFY, IN_MOVE_SELF, IN_MOVED_FROM, IN_MOVED_TO, IN_OPEN]"

section \<open>Decoding the read buffer\<close>

text \<open>
  \<^verbatim>\<open>struct inotify_event { int wd; uint32_t mask; uint32_t cookie; uint32_t len;
  char name[]; }\<close> is declared by \<^verbatim>\<open>sys/inotify.h\<close>: a header of sixteen bytes,
  followed by \<open>len\<close> bytes of name. \<^verbatim>\<open>memcpy\<close> fills the four fields from the
  buffer in the byte order of the machine, which is little-endian on the
  platforms the program runs on.
\<close>

record inotify_event =
  ev_wd :: cint
  ev_mask :: uint32
  ev_cookie :: uint32
  ev_len :: uint32

definition iEventSize :: nat where
  "iEventSize = 16"

definition le32 :: "char list \<Rightarrow> uint32" where
  "le32 bs = word_of_nat (of_char (bs ! 0) + 256 * of_char (bs ! 1)
                          + 65536 * of_char (bs ! 2) + 16777216 * of_char (bs ! 3))"

text \<open>
  \<^verbatim>\<open>std::memcpy(&event, &readBuffer[index], iEventSize)\<close>. Reading sixteen bytes
  that are not all inside the buffer is undefined in C++; the model returns \<open>None\<close>.
\<close>

definition memcpy_event :: "char list \<Rightarrow> nat \<Rightarrow> inotify_event option" where
  "memcpy_event readBuffer index =
     (if index + iEventSize \<le> length readBuffer
      then (let h = take iEventSize (drop index readBuffer)
            in Some \<lparr>ev_wd = le32 (take 4 h), ev_mask = le32 (take 4 (drop 4 h)),
                     ev_cookie = le32 (take 4 (drop 8 h)), ev_len = le32 (take 4 (drop 12 h))\<rparr>)
      else None)"

text \<open>
  \<^verbatim>\<open>std::string filename(&readBuffer[pos])\<close>: the constructor from a C string copies
  the characters from \<open>pos\<close> up to the first NUL character, wherever that is. It
  is given no length. When no NUL follows inside the buffer the read runs past its
  end, which is undefined in C++; the model returns \<open>None\<close>.
\<close>

definition cstring :: "char list \<Rightarrow> nat \<Rightarrow> string option" where
  "cstring readBuffer pos =
     (let cs = drop pos readBuffer
      in if CHR 0x00 \<in> set cs then Some (takeWhile (\<lambda>c. c \<noteq> CHR 0x00) cs) else None)"

section \<open>readEvents\<close>

text \<open>
  One iteration of the \<^verbatim>\<open>while\<close> loop of \<^verbatim>\<open>readEvents\<close>. It ends in one of three
  ways: the loop goes on with a new index (both \<^verbatim>\<open>continue\<close> and the fall through
  to the last line of the body), the function returns, or a read leaves the buffer.
  The index is a \<^verbatim>\<open>size_t\<close> of 64 bits; it is at most \<open>bytesTransferred\<close> when the
  body is entered and grows by less than \<open>2 ^ 32 + 16\<close>, so it does not wrap and is
  a natural number here. \<^verbatim>\<open>filename != pathname.filename()\<close> compares the name with
  a path of one component, which is equality of their characters.
\<close>

datatype step = Continue nat monitor | Return monitor | Fault

definition readEvents_body :: "monitor \<Rightarrow> char list \<Rightarrow> nat \<Rightarrow> nat \<Rightarrow> step" where
  "readEvents_body st readBuffer bytesTransferred index =
     (case memcpy_event readBuffer index of
        None \<Rightarrow> Fault
      | Some event \<Rightarrow>
          (let next = index + (iEventSize + unat (ev_len event)) in
           if ev_wd event = dirWatchDesc st then
             (if ev_len event = 0 \<or> index + iEventSize + unat (ev_len event) > bytesTransferred
              then Continue next st
              else (case cstring readBuffer (index + iEventSize) of
                      None \<Rightarrow> Fault
                    | Some filename \<Rightarrow>
                        if filename \<noteq> fileName st then Continue next st
                        else (let st1 = emit (DirEventLine filename (parentPath st)
                                                (getEventString (ev_mask event))) st
                              in if ev_mask event = IN_CREATE then
                                   (let st2 = rmWatchOnFile st1;
                                        (ok, st3) = addWatchOnFile st2
                                    in if \<not> ok then Return st3 else Continue next st3)
                                 else if ev_mask event = IN_DELETE \<or> ev_mask event = IN_MOVED_TO
                                   then Continue next (rmWatchOnFile st1)
                                 else Continue next st1)))
           else if ev_wd event = fileWatchDesc st then
             Continue next (emit (FileEventLine (fileName st) (getEventString (ev_mask event))) st)
           else Continue next st))"

lemma readEvents_body_advances:
  "readEvents_body st readBuffer bytesTransferred index = Continue i st' \<Longrightarrow> index + iEventSize \<le> i"
  by (auto simp: readEvents_body_def Let_def split: option.splits if_splits prod.splits)

datatype fault = ReadPastBuffer

function readEvents_loop :: "monitor \<Rightarrow> char list \<Rightarrow> nat \<Rightarrow> nat \<Rightarrow> fault + monitor" where
  "readEvents_loop st readBuffer bytesTransferred index =
     (if index + iEventSize \<le> bytesTransferred
      then (case readEvents_body st readBuffer bytesTransferred index of
              Continue i st' \<Rightarrow> readEvents_loop st' readBuffer bytesTransferred i
            | Return st' \<Rightarrow> Inr st'
            | Fault \<Rightarrow> Inl ReadPastBuffer)
      else Inr st)"
  by pat_completeness auto
termination
proof (relation "measure (\<lambda>(st, readBuffer, bytesTransferred, index). bytesTransferred - index)")
  show "wf (measure (\<lambda>(st, readBuffer, bytesTransferred, index). bytesTransferred - index))"
    by simp
next
  fix st :: monitor and readBuffer bytesTransferred index i st'
  assume "index + iEventSize \<le> bytesTransferred"
    and "readEvents_body st readBuffer bytesTransferred index = Continue i st'"
  then show "((st', readBuffer, bytesTransferred, i), (st, readBuffer, bytesTransferred, index))
             \<in> measure (\<lambda>(st, readBuffer, bytesTransferred, index). bytesTransferred - index)"
    using readEvents_body_advances [of st readBuffer bytesTransferred index i st']
    by (simp add: iEventSize_def)
qed

declare readEvents_loop.simps [simp del]

definition readEvents :: "monitor \<Rightarrow> char list \<Rightarrow> nat \<Rightarrow> fault + monitor" where
  "readEvents st readBuffer bytesTransferred = readEvents_loop st readBuffer bytesTransferred 0"

section \<open>The read loop, construction and destruction\<close>

text \<open>
  \<^verbatim>\<open>monitorFilesystemEvent\<close> issues one asynchronous read and registers the
  completion handler; \<open>readHandler\<close> is that handler (the lambda), run when the
  read completes with an error code (\<open>Some\<close> its message) or with the number of
  bytes transferred into the buffer.
\<close>

definition monitorFilesystemEvent :: "monitor \<Rightarrow> monitor" where
  "monitorFilesystemEvent st = emit AsyncReadSome st"

definition readHandler :: "string option \<Rightarrow> char list \<Rightarrow> nat \<Rightarrow> monitor \<Rightarrow> fault + monitor" where
  "readHandler ec readBuffer bytesTransferred st =
     (case ec of
        Some message \<Rightarrow> Inr (emit (CerrLine ''Callback Error: '' message) st)
      | None \<Rightarrow>
          (case readEvents st readBuffer bytesTransferred of
             Inl f \<Rightarrow> Inl f
           | Inr st' \<Rightarrow> Inr (monitorFilesystemEvent st')))"

text \<open>
  The constructor. \<open>initFd\<close> is what \<^verbatim>\<open>inotify_init1\<close> returns and \<open>results\<close> what
  the later calls of \<^verbatim>\<open>inotify_add_watch\<close> return. (\<^verbatim>\<open>inotifyConn\<close> is engaged
  right after \<^verbatim>\<open>emplace\<close>, so the first early return of the source is never taken;
  handing the descriptor to the stream with \<^verbatim>\<open>assign\<close> leaves no trace here.)
\<close>

definition FilesystemEventMonitor :: "string \<Rightarrow> string \<Rightarrow> string \<Rightarrow> cint \<Rightarrow> cint list \<Rightarrow> monitor" where
  "FilesystemEventMonitor pn parent fname initFd results =
     (let st0 = \<lparr>inotifyFd = - 1, dirWatchDesc = - 1, fileWatchDesc = - 1, pathname = pn,
                 parentPath = parent, fileName = fname, addWatchResults = results, trace = []\<rparr>;
          st1 = emit (InotifyInit initFd) (st0\<lparr>inotifyFd := initFd\<rparr>)
      in if inotifyFd st1 = - 1 then st1
         else (let (okDir, st2) = addWatchOnDir st1
               in if \<not> okDir then st2
                  else (let (okFile, st3) = addWatchOnFile st2
                        in monitorFilesystemEvent st3)))"

definition destructor :: "monitor \<Rightarrow> monitor" where
  "destructor st =
     (let st1 = rmWatchOnDir st;
          st2 = rmWatchOnFile st1
      in emit (CloseFd (inotifyFd st2)) st2)"

section \<open>Observations on a run\<close>

text \<open>
  What the properties below read off a state or a trace: how many asynchronous reads
  have been issued, which descriptors have been handed to \<^verbatim>\<open>inotify_rm_watch\<close>, and
  what the next call of \<^verbatim>\<open>inotify_add_watch\<close> will return.
\<close>

definition readsIssued :: "monitor \<Rightarrow> nat" where
  "readsIssued st = length (filter (\<lambda>a. a = AsyncReadSome) (trace st))"

fun rmCalls :: "action list \<Rightarrow> cint list" where
  "rmCalls [] = []"
| "rmCalls (InotifyRmWatch w # as) = w # rmCalls as"
| "rmCalls (a # as) = rmCalls as"

definition nextAddResult :: "monitor \<Rightarrow> cint" where
  "nextAddResult st = (case addWatchResults st of [] \<Rightarrow> - 1 | r # rs \<Rightarrow> r)"

text \<open>
  The actions of the \<^verbatim>\<open>IN_CREATE\<close> case for the target file, when the registration
  returns \<open>r\<close>: the dispatched line, the removal of the old watch if there is one,
  then the registration and its narration. \<open>rearmed\<close> is the monitor after them.
\<close>

definition rearmActions :: "monitor \<Rightarrow> cint \<Rightarrow> action list" where
  "rearmActions st r =
     DirEventLine (fileName st) (parentPath st) (getEventString IN_CREATE)
     # (if fileWatchDesc st \<noteq> - 1
        then [CoutLine ''Remove inotify watcher on '' (fileName st), InotifyRmWatch (fileWatchDesc st)]
        else [])
     @ [InotifyAddWatch (pathname st) r,
        if r = - 1 then CerrLine ''inotify_add_watch failed for file: '' (pathname st)
        else CoutLine ''Add inotify watcher on '' (fileName st)]"

definition rearmed :: "monitor \<Rightarrow> monitor" where
  "rearmed st = st\<lparr>fileWatchDesc := nextAddResult st, addWatchResults := tl (addWatchResults st),
                   trace := trace st @ rearmActions st (nextAddResult st)\<rparr>"

text \<open>
  The kernel's side of the two system calls, as a table of the live watches of the
  inotify instance (descriptor and watched path): a successful registration enters
  its descriptor, replacing an entry under the same descriptor, and a removal drops
  the descriptor. \<open>kernelWatches\<close> replays a trace on a table and \<open>watchesOn\<close>
  lists the live descriptors of one path.
\<close>

type_synonym watchTable = "(cint \<times> string) list"

fun kernel_apply :: "watchTable \<Rightarrow> action \<Rightarrow> watchTable" where
  "kernel_apply tbl (InotifyAddWatch p r) =
     (if r = - 1 then tbl else (r, p) # filter (\<lambda>e. fst e \<noteq> r) tbl)"
| "kernel_apply tbl (InotifyRmWatch w) = filter (\<lambda>e. fst e \<noteq> w) tbl"
| "kernel_apply tbl a = tbl"

definition kernelWatches :: "watchTable \<Rightarrow> action list \<Rightarrow> watchTable" where
  "kernelWatches tbl acts = foldl kernel_apply tbl acts"

definition watchesOn :: "string \<Rightarrow> watchTable \<Rightarrow> cint list" where
  "watchesOn p tbl = map fst (filter (\<lambda>e. snd e = p) tbl)"

section \<open>Records on the wire\<close>

text \<open>
  What a buffer of concatenated records is: each record is the sixteen bytes of its
  header (four little-endian words, the inverse of \<open>memcpy_event\<close>) followed by
  its name field. A record is well formed when the name field has the declared
  length and, unless that is zero, holds a NUL character, as the kernel writes it.
\<close>

definition char_le32 :: "uint32 \<Rightarrow> char list" where
  "char_le32 w = [char_of (unat w), char_of (unat w div 256),
                  char_of (unat w div 65536), char_of (unat w div 16777216)]"

definition eventBytes :: "inotify_event \<Rightarrow> char list" where
  "eventBytes ev = char_le32 (ev_wd ev) @ char_le32 (ev_mask ev)
                   @ char_le32 (ev_cookie ev) @ char_le32 (ev_len ev)"

type_synonym wireRecord = "inotify_event \<times> char list"

fun recordBytes :: "wireRecord \<Rightarrow> char list" where
  "recordBytes (ev, nm) = eventBytes ev @ nm"

definition wireBytes :: "wireRecord list \<Rightarrow> char list" where
  "wireBytes recs = concat (map recordBytes recs)"

fun wellFormed :: "wireRecord \<Rightarrow> bool" where
  "wellFormed (ev, nm) = (length nm = unat (ev_len ev) \<and> (ev_len ev = 0 \<or> CHR 0x00 \<in> set nm))"

text \<open>
  The handling of one decoded record in the words of the specification (its sections
  4.3 and 4.4), for comparison with the loop of \<^verbatim>\<open>readEvents\<close>: a record of an
  unknown watch is discarded; a record of the directory watch is discarded unless
  its name, the NUL-terminated string in the \<open>len\<close> bytes of the name field, is the
  target file name, and otherwise it is dispatched and create removes the file watch
  and adds it again, delete and moved-to remove it, all others change nothing; a
  record of the file watch is dispatched. The flag is \<open>False\<close> when adding the file
  watch failed, and then the rest of the batch is not handled.
\<close>

fun specHandleRecord :: "monitor \<Rightarrow> wireRecord \<Rightarrow> bool \<times> monitor" where
  "specHandleRecord st (ev, nm) =
     (if ev_wd ev = dirWatchDesc st then
        (if ev_len ev = 0 then (True, st)
         else (let filename = takeWhile (\<lambda>c. c \<noteq> CHR 0x00) nm in
               if filename \<noteq> fileName st then (True, st)
               else (let st1 = emit (DirEventLine filename (parentPath st)
                                       (getEventString (ev_mask ev))) st
                     in if ev_mask ev = IN_CREATE then addWatchOnFile (rmWatchOnFile st1)
                        else if ev_mask ev = IN_DELETE \<or> ev_mask ev = IN_MOVED_TO
                          then (True, rmWatchOnFile st1)
                        else (True, st1))))
      else if ev_wd ev = fileWatchDesc st then
        (True, emit (FileEventLine (fileName st) (getEventString (ev_mask ev))) st)
      else (True, st))"

fun specHandleRecords :: "monitor \<Rightarrow> wireRecord list \<Rightarrow> monitor" where
  "specHandleRecords st [] = st"
| "specHandleRecords st (r # rs) =
     (case specHandleRecord st r of
        (True, st') \<Rightarrow> specHandleRecords st' rs
      | (False, st') \<Rightarrow> st')"

text \<open>
  A trailing fragment that the loop passes over: it is shorter than a header, or its
  header declares more name bytes than the fragment holds and carries a descriptor
  that is the directory's or is not the file's.
\<close>

definition fragmentDropped :: "monitor \<Rightarrow> char list \<Rightarrow> bool" where
  "fragmentDropped st frag =
     (length frag < iEventSize
      \<or> (case memcpy_event frag 0 of
            None \<Rightarrow> False
          | Some ev \<Rightarrow> length frag < iEventSize + unat (ev_len ev)
                       \<and> (ev_wd ev = dirWatchDesc st \<or> ev_wd ev \<noteq> fileWatchDesc st)))"

section \<open>Example inputs\<close>

text \<open>
  A monitor that is running on \<^verbatim>\<open>/tmp/d/f.txt\<close> with directory watch 1, and
  buffers as the kernel writes them: a sixteen byte header and the name padded
  with NUL characters to sixteen bytes.
\<close>

definition runningMonitor :: "cint \<Rightarrow> cint list \<Rightarrow> monitor" where
  "runningMonitor f rs =
     \<lparr>inotifyFd = 3, dirWatchDesc = 1, fileWatchDesc = f, pathname = ''/tmp/d/f.txt'',
      parentPath = ''/tmp/d'', fileName = ''f.txt'', addWatchResults = rs, trace = []\<rparr>"

definition targetName16 :: "char list" where
  "targetName16 = [CHR ''f'', CHR ''.'', CHR ''t'', CHR ''x'', CHR ''t'', CHR 0x00, CHR 0x00, CHR 0x00,
                   CHR 0x00, CHR 0x00, CHR 0x00, CHR 0x00, CHR 0x00, CHR 0x00, CHR 0x00, CHR 0x00]"

definition dirHeader16 :: "char \<Rightarrow> char \<Rightarrow> char list" where
  "dirHeader16 m0 m1 = [CHR 0x01, CHR 0x00, CHR 0x00, CHR 0x00, m0, m1, CHR 0x00, CHR 0x00,
                        CHR 0x00, CHR 0x00, CHR 0x00, CHR 0x00, CHR 0x10, CHR 0x00, CHR 0x00, CHR 0x00]"

definition createRecord :: "char list" where
  "createRecord = dirHeader16 (CHR 0x00) (CHR 0x01) @ targetName16"
definition deleteRecord :: "char list" where
  "deleteRecord = dirHeader16 (CHR 0x00) (CHR 0x02) @ targetName16"
definition movedToRecord :: "char list" where
  "movedToRecord = dirHeader16 (CHR 0x80) (CHR 0x00) @ targetName16"
definition movedFromRecord :: "char list" where
  "movedFromRecord = dirHeader16 (CHR 0x40) (CHR 0x00) @ targetName16"

definition otherName16 :: "char list" where
  "otherName16 = [CHR ''o'', CHR ''t'', CHR ''h'', CHR ''e'', CHR ''r'', CHR ''.'', CHR ''t'', CHR ''x'',
                  CHR ''t'', CHR 0x00, CHR 0x00, CHR 0x00, CHR 0x00, CHR 0x00, CHR 0x00, CHR 0x00]"

definition otherDeleteRecord :: "char list" where
  "otherDeleteRecord = dirHeader16 (CHR 0x00) (CHR 0x02) @ otherName16"

text \<open>
  A record that declares four bytes of name, none of them NUL, in a buffer whose
  next byte is a \<^verbatim>\<open>t\<close>.
\<close>

definition unterminatedName :: "char list" where
  "unterminatedName = [CHR 0x01, CHR 0x00, CHR 0x00, CHR 0x00, CHR 0x02, CHR 0x00, CHR 0x00, CHR 0x00, CHR 0x00, CHR 0x00, CHR 0x00, CHR 0x00, CHR 0x04, CHR 0x00, CHR 0x00, CHR 0x00, CHR ''f'', CHR ''.'', CHR ''t'', CHR ''x'', CHR ''t'', CHR 0x00, CHR 0x00, CHR 0x00]"

text \<open>
  The same with a delete record of the directory watch, and a monitor on the target
  \<^verbatim>\<open>/tmp/d/\<close>, whose parent path \<^verbatim>\<open>/tmp/d\<close> names the same directory: the
  kernel gives one object one descriptor, here 1 for both registrations.
\<close>

definition unterminatedDelete :: "char list" where
  "unterminatedDelete = [CHR 0x01, CHR 0x00, CHR 0x00, CHR 0x00, CHR 0x00, CHR 0x02, CHR 0x00, CHR 0x00, CHR 0x00, CHR 0x00, CHR 0x00, CHR 0x00, CHR 0x04, CHR 0x00, CHR 0x00, CHR 0x00, CHR ''f'', CHR ''.'', CHR ''t'', CHR ''x'', CHR ''t'', CHR 0x00, CHR 0x00, CHR 0x00]"

definition directoryTargetMonitor :: monitor where
  "directoryTargetMonitor = FilesystemEventMonitor ''/tmp/d/'' ''/tmp/d'' [] 3 [1, 1]"

text \<open>
  Two complete records as a list (a modification seen by the file watch, then the
  deletion of the target seen by the directory watch), a create record of the
  directory watch cut after four bytes of its name, and a header with the file
  watch's descriptor that declares eight bytes of name and has none.
\<close>

definition modifyThenDelete :: "wireRecord list" where
  "modifyThenDelete =
     [(\<lparr>ev_wd = 2, ev_mask = IN_MODIFY, ev_cookie = 0, ev_len = 0\<rparr>, []),
      (\<lparr>ev_wd = 1, ev_mask = IN_DELETE, ev_cookie = 0, ev_len = 16\<rparr>, targetName16)]"

definition truncatedDirFragment :: "char list" where
  "truncatedDirFragment = dirHeader16 (CHR 0x00) (CHR 0x01) @ [CHR ''f'', CHR ''.'', CHR ''t'', CHR ''x'']"

definition truncatedFileFragment :: "char list" where
  "truncatedFileFragment = [CHR 0x02, CHR 0x00, CHR 0x00, CHR 0x00, CHR 0x02, CHR 0x00, CHR 0x00, CHR 0x00,
                            CHR 0x00, CHR 0x00, CHR 0x00, CHR 0x00, CHR 0x08, CHR 0x00, CHR 0x00, CHR 0x00]"

section \<open>Auxiliary facts\<close>

lemmas mon_defs = emit_def inotify_add_watch_def inotify_rm_watch_def addWatchOnDir_def
  rmWatchOnDir_def addWatchOnFile_def rmWatchOnFile_def monitorFilesystemEvent_def

lemma rmCalls_append: "rmCalls (xs @ ys) = rmCalls xs @ rmCalls ys"
  by (induction xs rule: rmCalls.induct) simp_all

lemmas example_defs = targetName16_def dirHeader16_def createRecord_def deleteRecord_def
  movedToRecord_def movedFromRecord_def otherName16_def otherDeleteRecord_def runningMonitor_def

lemmas decode_defs = memcpy_event_def cstring_def le32_def iEventSize_def

lemma body_target_record:
  assumes "memcpy_event readBuffer index = Some event"
    and "ev_wd event = dirWatchDesc st"
    and "ev_len event \<noteq> 0"
    and "index + iEventSize + unat (ev_len event) \<le> bytesTransferred"
    and "cstring readBuffer (index + iEventSize) = Some (fileName st)"
  shows "readEvents_body st readBuffer bytesTransferred index =
         (let next = index + (iEventSize + unat (ev_len event));
              st1 = emit (DirEventLine (fileName st) (parentPath st) (getEventString (ev_mask event))) st
          in if ev_mask event = IN_CREATE then
               (let (ok, st3) = addWatchOnFile (rmWatchOnFile st1)
                in if \<not> ok then Return st3 else Continue next st3)
             else if ev_mask event = IN_DELETE \<or> ev_mask event = IN_MOVED_TO
               then Continue next (rmWatchOnFile st1)
             else Continue next st1)"
  using assms by (simp add: readEvents_body_def Let_def)

lemma rearm_after_create:
  "addWatchOnFile (rmWatchOnFile (emit (DirEventLine (fileName st) (parentPath st) (getEventString IN_CREATE)) st))
   = (nextAddResult st \<noteq> - 1, rearmed st)"
  by (cases "addWatchResults st")
     (simp_all add: mon_defs rearmed_def rearmActions_def nextAddResult_def Let_def)

lemma body_create_record:
  assumes "memcpy_event readBuffer index = Some event"
    and "ev_wd event = dirWatchDesc st"
    and "ev_len event \<noteq> 0"
    and "index + iEventSize + unat (ev_len event) \<le> bytesTransferred"
    and "cstring readBuffer (index + iEventSize) = Some (fileName st)"
    and "ev_mask event = IN_CREATE"
  shows "readEvents_body st readBuffer bytesTransferred index =
         (if nextAddResult st = - 1 then Return (rearmed st)
          else Continue (index + (iEventSize + unat (ev_len event))) (rearmed st))"
  using assms(6) by (simp add: body_target_record [OF assms(1-5)] rearm_after_create)

lemma watchesOn_remove:
  "watchesOn p (filter (\<lambda>e. fst e \<noteq> w) tbl) = filter (\<lambda>x. x \<noteq> w) (watchesOn p tbl)"
  by (induction tbl) (simp_all add: watchesOn_def)

lemma watchesOn_Cons:
  "watchesOn p ((w, q) # tbl) = (if q = p then w # watchesOn p tbl else watchesOn p tbl)"
  by (simp add: watchesOn_def)

lemma cstring_in_field:
  assumes "CHR 0x00 \<in> set (take n (drop pos readBuffer))"
  shows "cstring readBuffer pos = Some (takeWhile (\<lambda>c. c \<noteq> CHR 0x00) (take n (drop pos readBuffer)))"
proof -
  have split: "drop pos readBuffer = take n (drop pos readBuffer) @ drop n (drop pos readBuffer)"
    by (rule append_take_drop_id [symmetric])
  have "CHR 0x00 \<in> set (drop pos readBuffer)"
    using assms by (metis in_set_takeD)
  moreover have "takeWhile (\<lambda>c. c \<noteq> CHR 0x00) (drop pos readBuffer)
                 = takeWhile (\<lambda>c. c \<noteq> CHR 0x00) (take n (drop pos readBuffer))"
    using assms by (subst split, subst takeWhile_append1 [where x = "CHR 0x00"]) simp_all
  ultimately show ?thesis by (simp add: cstring_def)
qed

lemma memcpy_event_same_bytes:
  assumes "memcpy_event readBuffer index = Some event"
    and "take (iEventSize + n) (drop index other) = take (iEventSize + n) (drop index readBuffer)"
  shows "memcpy_event other index = Some event"
proof -
  have len: "index + iEventSize \<le> length readBuffer"
    using assms(1) by (simp add: memcpy_event_def split: if_splits)
  have "length (take (iEventSize + n) (drop index other))
        = length (take (iEventSize + n) (drop index readBuffer))"
    using assms(2) by simp
  then have len': "index + iEventSize \<le> length other"
    using len by (simp add: iEventSize_def)
  have "take iEventSize (drop index other) = take iEventSize (take (iEventSize + n) (drop index other))"
    by (simp add: min_def)
  also have "\<dots> = take iEventSize (take (iEventSize + n) (drop index readBuffer))"
    using assms(2) by simp
  also have "\<dots> = take iEventSize (drop index readBuffer)"
    by (simp add: min_def)
  finally show ?thesis
    using assms(1) len len' by (simp add: memcpy_event_def)
qed

lemma field_same_bytes:
  assumes "take (iEventSize + n) (drop index other) = take (iEventSize + n) (drop index readBuffer)"
  shows "take n (drop (index + iEventSize) other)
         = take n (drop (index + iEventSize) (readBuffer :: char list))"
proof -
  have k: "take n (drop (index + iEventSize) xs) = drop iEventSize (take (iEventSize + n) (drop index xs))"
    for xs :: "char list"
    by (simp add: drop_take add.commute)
  show ?thesis unfolding k [of other] k [of readBuffer] assms by (rule refl)
qed

lemma le32_digits:
  "n = m0 + 256 * a \<Longrightarrow> a = m1 + 256 * b \<Longrightarrow> b = m2 + 256 * c
   \<Longrightarrow> m0 + 256 * m1 + 65536 * m2 + 16777216 * c = (n::nat)"
  by simp

lemma le32_sum:
  assumes "n < 4294967296"
  shows "n mod 256 + 256 * (n div 256 mod 256) + 65536 * (n div 65536 mod 256)
          + 16777216 * (n div 16777216 mod 256) = (n::nat)"
proof -
  have d2: "n div 65536 = n div 256 div 256"
    by (simp add: div_mult2_eq [symmetric])
  have d3: "n div 16777216 = n div 256 div 256 div 256"
    by (simp add: div_mult2_eq [symmetric])
  have "n div 16777216 < 256"
    using assms by (simp add: div_less_iff_less_mult)
  then have m3: "n div 16777216 mod 256 = n div 256 div 256 div 256"
    by (simp add: d3)
  have e0: "n = n mod 256 + 256 * (n div 256)" by simp
  have e1: "n div 256 = n div 256 mod 256 + 256 * (n div 256 div 256)" by simp
  have e2: "n div 256 div 256 = n div 256 div 256 mod 256 + 256 * (n div 256 div 256 div 256)"
    by simp
  show ?thesis
    unfolding m3 d2 by (rule le32_digits [OF e0 e1 e2])
qed

lemma le32_char_le32: "le32 (char_le32 w) = w"
proof -
  have lt: "unat w < 4294967296" using unsigned_less [of w] by simp
  have n0: "char_le32 w ! 0 = char_of (unat w)"
    and n1: "char_le32 w ! 1 = char_of (unat w div 256)"
    and n2: "char_le32 w ! 2 = char_of (unat w div 65536)"
    and n3: "char_le32 w ! 3 = char_of (unat w div 16777216)"
    by (simp_all add: char_le32_def)
  have "le32 (char_le32 w)
        = word_of_nat (unat w mod 256 + 256 * (unat w div 256 mod 256)
                       + 65536 * (unat w div 65536 mod 256)
                       + 16777216 * (unat w div 16777216 mod 256))"
    unfolding le32_def n0 n1 n2 n3 of_char_of by (rule refl)
  also have "\<dots> = word_of_nat (unat w)"
    by (simp only: le32_sum [OF lt])
  also have "\<dots> = w" by simp
  finally show ?thesis .
qed

lemma length_eventBytes: "length (eventBytes ev) = 16"
  by (simp add: eventBytes_def char_le32_def)

lemma eventBytes_fields:
  "take 4 (eventBytes ev) = char_le32 (ev_wd ev)"
  "take 4 (drop 4 (eventBytes ev)) = char_le32 (ev_mask ev)"
  "take 4 (drop 8 (eventBytes ev)) = char_le32 (ev_cookie ev)"
  "take 4 (drop 12 (eventBytes ev)) = char_le32 (ev_len ev)"
  by (simp_all add: eventBytes_def char_le32_def)

lemma memcpy_event_eventBytes:
  "memcpy_event (pre @ eventBytes ev @ rest) (length pre) = Some ev"
proof -
  have "take iEventSize (drop (length pre) (pre @ eventBytes ev @ rest)) = eventBytes ev"
    by (simp add: iEventSize_def length_eventBytes)
  then show ?thesis
    by (simp add: memcpy_event_def eventBytes_fields le32_char_le32 length_eventBytes iEventSize_def)
qed

lemma cstring_wire:
  assumes "CHR 0x00 \<in> set nm"
  shows "cstring (pre @ eventBytes ev @ nm @ rest) (length pre + iEventSize)
         = Some (takeWhile (\<lambda>c. c \<noteq> CHR 0x00) nm)"
proof -
  have d: "drop (length pre + iEventSize) (pre @ eventBytes ev @ nm @ rest) = nm @ rest"
    by (simp add: iEventSize_def length_eventBytes)
  have t: "takeWhile (\<lambda>c. c \<noteq> CHR 0x00) (nm @ rest) = takeWhile (\<lambda>c. c \<noteq> CHR 0x00) nm"
    by (rule takeWhile_append1 [OF assms]) simp
  show ?thesis
    unfolding cstring_def d Let_def t using assms by simp
qed

lemma body_wire:
  assumes "wellFormed (ev, nm)"
    and "length pre + iEventSize + length nm \<le> bytesTransferred"
  shows "readEvents_body st (pre @ recordBytes (ev, nm) @ rest) bytesTransferred (length pre)
         = (case specHandleRecord st (ev, nm) of
              (True, st') \<Rightarrow> Continue (length pre + (iEventSize + length nm)) st'
            | (False, st') \<Rightarrow> Return st')"
proof -
  have m: "memcpy_event (pre @ eventBytes ev @ xs) (length pre) = Some ev" for xs
    by (rule memcpy_event_eventBytes)
  have len: "unat (ev_len ev) = length nm" using assms(1) by simp
  show ?thesis
  proof (cases "ev_len ev = 0")
    case True
    then show ?thesis
      using len by (simp add: readEvents_body_def m Let_def)
  next
    case False
    then have "CHR 0x00 \<in> set nm" using assms(1) by simp
    then have c: "cstring (pre @ eventBytes ev @ nm @ rest) (length pre + iEventSize)
                  = Some (takeWhile (\<lambda>c. c \<noteq> CHR 0x00) nm)"
      by (rule cstring_wire)
    show ?thesis
      using False len assms(2)
      by (simp add: readEvents_body_def m c Let_def split: prod.splits bool.splits)
  qed
qed

lemma fragment_loop:
  assumes "fragmentDropped st frag"
  shows "readEvents_loop st (pre @ frag @ stale) (length pre + length frag) (length pre) = Inr st"
proof (cases "length frag < iEventSize")
  case True
  then show ?thesis
    by (simp add: readEvents_loop.simps [of st _ _ "length pre"])
next
  case False
  then obtain ev where ev: "memcpy_event frag 0 = Some ev"
    and short: "length frag < iEventSize + unat (ev_len ev)"
    and wd: "ev_wd ev = dirWatchDesc st \<or> ev_wd ev \<noteq> fileWatchDesc st"
    using assms by (auto simp: fragmentDropped_def split: option.splits)
  have t: "take iEventSize (drop (length pre) (pre @ frag @ stale)) = take iEventSize frag"
    using False by simp
  have m: "memcpy_event (pre @ frag @ stale) (length pre) = Some ev"
    using ev False by (simp add: memcpy_event_def t split: if_splits)
  have b: "readEvents_body st (pre @ frag @ stale) (length pre + length frag) (length pre)
           = Continue (length pre + (iEventSize + unat (ev_len ev))) st"
    using wd short by (auto simp: readEvents_body_def m Let_def)
  have stop: "\<not> length pre + (iEventSize + unat (ev_len ev)) + iEventSize \<le> length pre + length frag"
    using short by simp
  show ?thesis
    using False b stop
    by (simp add: readEvents_loop.simps [of st _ _ "length pre"]
                  readEvents_loop.simps [of st _ _ "length pre + (iEventSize + unat (ev_len ev))"])
qed

lemma loop_record_step:
  assumes "wellFormed (ev, nm)"
    and "length pre + iEventSize + length nm \<le> bytesTransferred"
  shows "readEvents_loop st (pre @ recordBytes (ev, nm) @ rest) bytesTransferred (length pre)
         = (case specHandleRecord st (ev, nm) of
              (True, st') \<Rightarrow> readEvents_loop st' (pre @ recordBytes (ev, nm) @ rest) bytesTransferred
                               (length pre + (iEventSize + length nm))
            | (False, st') \<Rightarrow> Inr st')"
proof -
  have enter: "length pre + iEventSize \<le> bytesTransferred" using assms(2) by simp
  obtain ok st' where h: "specHandleRecord st (ev, nm) = (ok, st')"
    by (cases "specHandleRecord st (ev, nm)")
  show ?thesis
    unfolding readEvents_loop.simps [of st _ bytesTransferred "length pre"]
      body_wire [OF assms] h
    using enter by (cases ok) simp_all
qed

lemma records_loop:
  assumes "\<forall>r \<in> set recs. wellFormed r"
    and "fragmentDropped (specHandleRecords st recs) frag"
    and "readBuffer = pre @ wireBytes recs @ frag @ stale"
    and "bytesTransferred = length pre + length (wireBytes recs) + length frag"
    and "index = length pre"
  shows "readEvents_loop st readBuffer bytesTransferred index = Inr (specHandleRecords st recs)"
  using assms
proof (induction recs arbitrary: st pre index)
  case Nil
  then show ?case
    using fragment_loop [of st frag pre stale] by (simp add: wireBytes_def)
next
  case (Cons r recs)
  obtain ev nm where r: "r = (ev, nm)" by (cases r)
  have wf: "wellFormed (ev, nm)" using Cons.prems(1) r by simp
  define rest where "rest = wireBytes recs @ frag @ stale"
  have buf: "readBuffer = pre @ recordBytes (ev, nm) @ rest"
    using Cons.prems(3) by (simp add: wireBytes_def r rest_def)
  have fits: "length pre + iEventSize + length nm \<le> bytesTransferred"
    using Cons.prems(4) by (simp add: wireBytes_def r iEventSize_def length_eventBytes)
  have step: "readEvents_loop st readBuffer bytesTransferred index
         = (case specHandleRecord st (ev, nm) of
              (True, st') \<Rightarrow> readEvents_loop st' readBuffer bytesTransferred
                               (length pre + (iEventSize + length nm))
            | (False, st') \<Rightarrow> Inr st')"
    unfolding buf Cons.prems(5) by (rule loop_record_step [OF wf fits])
  obtain ok st' where h: "specHandleRecord st (ev, nm) = (ok, st')"
    by (cases "specHandleRecord st (ev, nm)")
  show ?case
  proof (cases ok)
    case False
    then show ?thesis
      unfolding step r using h by (simp del: specHandleRecord.simps)
  next
    case True
    have "readEvents_loop st' readBuffer bytesTransferred (length pre + (iEventSize + length nm))
          = Inr (specHandleRecords st' recs)"
    proof (rule Cons.IH [where pre = "pre @ recordBytes (ev, nm)"])
      show "\<forall>r \<in> set recs. wellFormed r" using Cons.prems(1) by simp
      show "fragmentDropped (specHandleRecords st' recs) frag"
        using Cons.prems(2) h True r by (simp del: specHandleRecord.simps)
      show "readBuffer = (pre @ recordBytes (ev, nm)) @ wireBytes recs @ frag @ stale"
        using buf by (simp add: rest_def)
      show "bytesTransferred = length (pre @ recordBytes (ev, nm)) + length (wireBytes recs) + length frag"
        using Cons.prems(4) by (simp add: wireBytes_def r)
      show "length pre + (iEventSize + length nm) = length (pre @ recordBytes (ev, nm))"
        by (simp add: iEventSize_def length_eventBytes)
    qed
    then show ?thesis
      unfolding step r using h True by (simp del: specHandleRecord.simps)
  qed
qed

section \<open>The event-description classifier\<close>

text \<open>
  C9. \<open>getEventString\<close> is a total function of the mask alone. It returns a non-empty
  description exactly for the twelve known masks, which are twelve different values
  with one bit each (bits 0 to 11); for every other mask it returns the empty string.
\<close>

theorem getEventString_known_iff:
  "(getEventString m \<noteq> []) = (m \<in> set knownMasks)
   \<and> length knownMasks = 12 \<and> distinct knownMasks
   \<and> knownMasks = map (\<lambda>k. push_bit k 1) [0, 2, 3, 4, 8, 9, 10, 1, 11, 6, 7, 5]"
proof -
  have a: "(getEventString m \<noteq> []) = (m \<in> set knownMasks)"
    by (simp add: getEventString_def knownMasks_def)
  have b: "length knownMasks = 12" by (simp add: knownMasks_def)
  have c: "distinct knownMasks" by (simp add: knownMasks_def IN_defs)
  have d: "knownMasks = map (\<lambda>k. push_bit k 1) [0, 2, 3, 4, 8, 9, 10, 1, 11, 6, 7, 5]"
    by (simp add: knownMasks_def IN_defs)
  from a b c d show ?thesis by blast
qed

section \<open>Removing watches and teardown\<close>

text \<open>
  C8 as stated does not hold: on the target \<^verbatim>\<open>/tmp/d/\<close> both registrations return
  descriptor 1, both fields hold it, and the destructor hands it to
  \<^verbatim>\<open>inotify_rm_watch\<close> twice. The two fields are never compared.
\<close>

theorem teardown_same_descriptor_twice_counterexample:
  "dirWatchDesc directoryTargetMonitor = 1
   \<and> fileWatchDesc directoryTargetMonitor = 1
   \<and> rmCalls (trace directoryTargetMonitor) = []
   \<and> rmCalls (trace (destructor directoryTargetMonitor)) = [1, 1]"
  by (simp add: directoryTargetMonitor_def FilesystemEventMonitor_def destructor_def mon_defs Let_def)

text \<open>
  C8, amended. Removing a watch that is absent (descriptor \<open>-1\<close>) makes no call and
  leaves the monitor as it is, so removing twice is the same as removing once. The
  destructor hands to \<^verbatim>\<open>inotify_rm_watch\<close> the directory field and then the file
  field, each once and only if it is not \<open>-1\<close>, and both are absent afterwards. When
  the two fields hold different descriptors, every live descriptor is deregistered
  exactly once and nothing else is; when they hold the same live descriptor, it is
  handed over twice.
\<close>

theorem removeWatch_idempotent_teardown_once:
  "(fileWatchDesc st = - 1 \<longrightarrow> rmWatchOnFile st = st)
   \<and> (dirWatchDesc st = - 1 \<longrightarrow> rmWatchOnDir st = st)
   \<and> rmWatchOnFile (rmWatchOnFile st) = rmWatchOnFile st
   \<and> rmWatchOnDir (rmWatchOnDir st) = rmWatchOnDir st
   \<and> rmCalls (trace (destructor st))
       = rmCalls (trace st) @ filter (\<lambda>w. w \<noteq> - 1) [dirWatchDesc st, fileWatchDesc st]
   \<and> (dirWatchDesc st \<noteq> fileWatchDesc st \<longrightarrow>
        count_list (filter (\<lambda>w. w \<noteq> - 1) [dirWatchDesc st, fileWatchDesc st]) w
        = (if w \<noteq> - 1 \<and> (w = dirWatchDesc st \<or> w = fileWatchDesc st) then 1 else 0))
   \<and> (dirWatchDesc st = fileWatchDesc st \<and> dirWatchDesc st \<noteq> - 1 \<longrightarrow>
        filter (\<lambda>w. w \<noteq> - 1) [dirWatchDesc st, fileWatchDesc st]
        = [dirWatchDesc st, dirWatchDesc st])
   \<and> dirWatchDesc (destructor st) = - 1 \<and> fileWatchDesc (destructor st) = - 1"
  by (simp add: mon_defs destructor_def Let_def rmCalls_append)

theorem removeWatch_idempotent_teardown_once_witness:
  "fileWatchDesc (runningMonitor (- 1) []) = - 1
   \<and> rmWatchOnFile (runningMonitor (- 1) []) = runningMonitor (- 1) []
   \<and> rmCalls (trace (destructor (runningMonitor (- 1) []))) = [1]
   \<and> rmCalls (trace (destructor (runningMonitor 2 []))) = [1, 2]
   \<and> count_list [1, 2 :: cint] 2 = 1
   \<and> count_list [1 :: cint] (- 1) = 0
   \<and> dirWatchDesc (runningMonitor 2 []) \<noteq> fileWatchDesc (runningMonitor 2 [])"
  using removeWatch_idempotent_teardown_once [of "runningMonitor (- 1) []" "- 1"]
    removeWatch_idempotent_teardown_once [of "runningMonitor 2 []" 2]
  by (simp add: runningMonitor_def)

section \<open>Construction\<close>

text \<open>
  C7. When the registration of the directory watch fails (the kernel returns
  \<open>-1\<close>, or the script of results is empty), the constructor returns without
  issuing a read and without trying the file watch. When the directory watch
  succeeds and the file watch fails, the constructor goes on: exactly one read is
  issued, the directory watch is live and the file watch is absent.
\<close>

theorem construction_dir_fatal_file_optional:
  "(r = - 1 \<longrightarrow>
      readsIssued (FilesystemEventMonitor pn parent fname fd (r # rs)) = 0
      \<and> readsIssued (FilesystemEventMonitor pn parent fname fd []) = 0
      \<and> dirWatchDesc (FilesystemEventMonitor pn parent fname fd (r # rs)) = - 1
      \<and> fileWatchDesc (FilesystemEventMonitor pn parent fname fd (r # rs)) = - 1)
   \<and> (fd \<noteq> - 1 \<and> d \<noteq> - 1 \<and> r = - 1 \<longrightarrow>
      readsIssued (FilesystemEventMonitor pn parent fname fd (d # r # rs)) = 1
      \<and> readsIssued (FilesystemEventMonitor pn parent fname fd [d]) = 1
      \<and> dirWatchDesc (FilesystemEventMonitor pn parent fname fd (d # r # rs)) = d
      \<and> fileWatchDesc (FilesystemEventMonitor pn parent fname fd (d # r # rs)) = - 1
      \<and> trace (FilesystemEventMonitor pn parent fname fd (d # r # rs))
          = [InotifyInit fd, InotifyAddWatch parent d, CoutLine ''Add inotify watcher on '' parent,
             InotifyAddWatch pn (- 1), CerrLine ''inotify_add_watch failed for file: '' pn,
             AsyncReadSome])"
  by (simp add: FilesystemEventMonitor_def readsIssued_def mon_defs Let_def)

theorem construction_dir_fatal_file_optional_witness:
  "readsIssued (FilesystemEventMonitor ''/tmp/d/f.txt'' ''/tmp/d'' ''f.txt'' 3 [- 1, 5]) = 0
   \<and> readsIssued (FilesystemEventMonitor ''/tmp/d/f.txt'' ''/tmp/d'' ''f.txt'' 3 [1, - 1]) = 1
   \<and> dirWatchDesc (FilesystemEventMonitor ''/tmp/d/f.txt'' ''/tmp/d'' ''f.txt'' 3 [1, - 1]) = 1
   \<and> fileWatchDesc (FilesystemEventMonitor ''/tmp/d/f.txt'' ''/tmp/d'' ''f.txt'' 3 [1, - 1]) = - 1"
  using construction_dir_fatal_file_optional
          [of "- 1" "''/tmp/d/f.txt''" "''/tmp/d''" "''f.txt''" 3 "[5]" 1]
        construction_dir_fatal_file_optional
          [of "- 1" "''/tmp/d/f.txt''" "''/tmp/d''" "''f.txt''" 3 "[]" 1]
  by simp

section \<open>Records of the directory watch\<close>

text \<open>
  C6 as stated does not hold: the record of the directory watch declares a name of
  four bytes, \<^verbatim>\<open>f.tx\<close>, which is not the target name \<^verbatim>\<open>f.txt\<close>; the field
  holds no NUL and a \<^verbatim>\<open>t\<close> follows it. \<^verbatim>\<open>readEvents\<close> reads the name
  \<^verbatim>\<open>f.txt\<close>, dispatches the record and removes file watch 2.
\<close>

theorem unterminated_other_name_dispatched_counterexample:
  "memcpy_event unterminatedDelete 0
   = Some \<lparr>ev_wd = 1, ev_mask = IN_DELETE, ev_cookie = 0, ev_len = 4\<rparr>
   \<and> take 4 (drop 16 unterminatedDelete) = ''f.tx''
   \<and> ''f.tx'' \<noteq> fileName (runningMonitor 2 [])
   \<and> readEvents (runningMonitor 2 []) unterminatedDelete 20
     = Inr \<lparr>inotifyFd = 3, dirWatchDesc = 1, fileWatchDesc = - 1, pathname = ''/tmp/d/f.txt'',
            parentPath = ''/tmp/d'', fileName = ''f.txt'', addWatchResults = [],
            trace = [DirEventLine ''f.txt'' ''/tmp/d'' (getEventString IN_DELETE),
                     CoutLine ''Remove inotify watcher on '' ''f.txt'', InotifyRmWatch 2]\<rparr>"
  by (simp add: readEvents_def readEvents_loop.simps readEvents_body_def unterminatedDelete_def
                example_defs decode_defs IN_defs mon_defs Let_def)

text \<open>
  C6, amended. Take a record of the directory watch that carries no name (\<open>len\<close> is
  zero), or whose name field holds a NUL character within its \<open>len\<close> bytes and whose
  name, the characters of the field before the first NUL, is not the target file
  name. It leaves the monitor exactly as it was (no line is printed, no watch is
  added or removed), and the loop goes on at the record that follows, at
  \<open>index + iEventSize + len\<close>.
\<close>

theorem unrelated_name_discarded:
  assumes "memcpy_event readBuffer index = Some event"
    and "ev_wd event = dirWatchDesc st"
    and "ev_len event = 0
         \<or> CHR 0x00 \<in> set (take (unat (ev_len event)) (drop (index + iEventSize) readBuffer))"
    and "ev_len event = 0
         \<or> takeWhile (\<lambda>c. c \<noteq> CHR 0x00)
              (take (unat (ev_len event)) (drop (index + iEventSize) readBuffer)) \<noteq> fileName st"
    and "index + iEventSize \<le> bytesTransferred"
  shows "readEvents_body st readBuffer bytesTransferred index
         = Continue (index + (iEventSize + unat (ev_len event))) st
       \<and> readEvents_loop st readBuffer bytesTransferred index
         = readEvents_loop st readBuffer bytesTransferred (index + (iEventSize + unat (ev_len event)))"
proof -
  have b: "readEvents_body st readBuffer bytesTransferred index
           = Continue (index + (iEventSize + unat (ev_len event))) st"
  proof (cases "ev_len event = 0")
    case True
    then show ?thesis
      using assms(1,2) by (simp add: readEvents_body_def Let_def)
  next
    case False
    then have nul: "CHR 0x00 \<in> set (take (unat (ev_len event)) (drop (index + iEventSize) readBuffer))"
      and other: "takeWhile (\<lambda>c. c \<noteq> CHR 0x00)
                    (take (unat (ev_len event)) (drop (index + iEventSize) readBuffer)) \<noteq> fileName st"
      using assms(3,4) by simp_all
    show ?thesis
      using assms(1,2) other
      by (simp add: readEvents_body_def Let_def cstring_in_field [OF nul])
  qed
  show ?thesis
    using assms(5) b
    by (simp add: readEvents_loop.simps [of st readBuffer bytesTransferred index])
qed

theorem unrelated_name_discarded_witness:
  "readEvents_body (runningMonitor 2 [7]) (otherDeleteRecord @ createRecord) 64 0
   = Continue 32 (runningMonitor 2 [7])
   \<and> readEvents_loop (runningMonitor 2 [7]) (otherDeleteRecord @ createRecord) 64 0
     = readEvents_loop (runningMonitor 2 [7]) (otherDeleteRecord @ createRecord) 64 32
   \<and> takeWhile (\<lambda>c. c \<noteq> CHR 0x00) (take 16 (drop 16 (otherDeleteRecord @ createRecord)))
     = ''other.txt''"
proof -
  have h: "memcpy_event (otherDeleteRecord @ createRecord) 0
           = Some \<lparr>ev_wd = 1, ev_mask = IN_DELETE, ev_cookie = 0, ev_len = 16\<rparr>"
    by (simp add: example_defs decode_defs IN_defs)
  have n: "takeWhile (\<lambda>c. c \<noteq> CHR 0x00) (take 16 (drop 16 (otherDeleteRecord @ createRecord)))
           = ''other.txt''"
    by (simp add: example_defs)
  have z: "CHR 0x00 \<in> set (take 16 (drop 16 (otherDeleteRecord @ createRecord)))"
    by (simp add: example_defs)
  show ?thesis
    using unrelated_name_discarded [OF h, of "runningMonitor 2 [7]" 64] n z
    by (simp add: runningMonitor_def iEventSize_def)
qed

section \<open>A create record whose registration fails\<close>

text \<open>
  C10. When the record at \<open>index\<close> is a complete create record of the directory
  watch for the target file and the registration of the new file watch fails,
  \<^verbatim>\<open>readEvents\<close> returns at once. The monitor it leaves is the one right after the
  failed registration: the trace has grown by the actions of this record only, so
  whatever follows the record in the buffer is neither dispatched nor acted upon.
\<close>

theorem failed_rearm_skips_rest_of_batch:
  assumes "memcpy_event readBuffer index = Some event"
    and "ev_wd event = dirWatchDesc st"
    and "ev_len event \<noteq> 0"
    and "index + iEventSize + unat (ev_len event) \<le> bytesTransferred"
    and "cstring readBuffer (index + iEventSize) = Some (fileName st)"
    and "ev_mask event = IN_CREATE"
    and "nextAddResult st = - 1"
  shows "readEvents_loop st readBuffer bytesTransferred index
         = Inr (st\<lparr>fileWatchDesc := - 1, addWatchResults := tl (addWatchResults st),
                   trace := trace st @ rearmActions st (- 1)\<rparr>)"
proof -
  have "index + iEventSize \<le> bytesTransferred" using assms(4) by simp
  then show ?thesis
    using assms(7)
    by (simp add: readEvents_loop.simps [of st readBuffer bytesTransferred index]
                  body_create_record [OF assms(1-6)] rearmed_def)
qed

theorem failed_rearm_skips_rest_of_batch_witness:
  "readEvents_loop (runningMonitor 2 []) (createRecord @ deleteRecord) 64 0
   = Inr ((runningMonitor 2 [])\<lparr>fileWatchDesc := - 1,
            trace := [DirEventLine ''f.txt'' ''/tmp/d'' (getEventString IN_CREATE),
                      CoutLine ''Remove inotify watcher on '' ''f.txt'', InotifyRmWatch 2,
                      InotifyAddWatch ''/tmp/d/f.txt'' (- 1),
                      CerrLine ''inotify_add_watch failed for file: '' ''/tmp/d/f.txt'']\<rparr>)
   \<and> memcpy_event (createRecord @ deleteRecord) 32
       = Some \<lparr>ev_wd = 1, ev_mask = IN_DELETE, ev_cookie = 0, ev_len = 16\<rparr>"
proof -
  have h: "memcpy_event (createRecord @ deleteRecord) 0
           = Some \<lparr>ev_wd = 1, ev_mask = IN_CREATE, ev_cookie = 0, ev_len = 16\<rparr>"
    by (simp add: example_defs decode_defs IN_defs)
  have d: "memcpy_event (createRecord @ deleteRecord) 32
           = Some \<lparr>ev_wd = 1, ev_mask = IN_DELETE, ev_cookie = 0, ev_len = 16\<rparr>"
    by (simp add: example_defs decode_defs IN_defs)
  have c: "cstring (createRecord @ deleteRecord) (0 + iEventSize) = Some (fileName (runningMonitor 2 []))"
    by (simp add: example_defs decode_defs)
  show ?thesis
    using failed_rearm_skips_rest_of_batch [OF h _ _ _ c, of 64] d
    by (simp add: runningMonitor_def iEventSize_def nextAddResult_def rearmActions_def)
qed

text \<open>
  C2. What the code does when the registration of the file watch fails on a create
  record for the target file, at whatever index the loop has reached it:
  \<^verbatim>\<open>readEvents\<close> returns at once with the file watch absent, and the completion
  handler, which cannot tell this return from the end of a batch, calls
  \<^verbatim>\<open>monitorFilesystemEvent\<close> all the same, so one more read is issued. Where the read
  itself fails, the handler returns without issuing a read.
\<close>

theorem failed_rearm_next_read_still_issued:
  assumes "readEvents_loop st0 readBuffer bytesTransferred 0
           = readEvents_loop st readBuffer bytesTransferred index"
    and "memcpy_event readBuffer index = Some event"
    and "ev_wd event = dirWatchDesc st"
    and "ev_len event \<noteq> 0"
    and "index + iEventSize + unat (ev_len event) \<le> bytesTransferred"
    and "cstring readBuffer (index + iEventSize) = Some (fileName st)"
    and "ev_mask event = IN_CREATE"
    and "nextAddResult st = - 1"
  shows "readHandler None readBuffer bytesTransferred st0
         = Inr (st\<lparr>fileWatchDesc := - 1, addWatchResults := tl (addWatchResults st),
                   trace := trace st @ rearmActions st (- 1) @ [AsyncReadSome]\<rparr>)
       \<and> readsIssued (st\<lparr>fileWatchDesc := - 1, addWatchResults := tl (addWatchResults st),
                          trace := trace st @ rearmActions st (- 1) @ [AsyncReadSome]\<rparr>)
         = readsIssued st + 1
       \<and> readHandler (Some message) readBuffer bytesTransferred st0
         = Inr (st0\<lparr>trace := trace st0 @ [CerrLine ''Callback Error: '' message]\<rparr>)
       \<and> readsIssued (st0\<lparr>trace := trace st0 @ [CerrLine ''Callback Error: '' message]\<rparr>)
         = readsIssued st0"
proof -
  have "index + iEventSize \<le> bytesTransferred" using assms(5) by simp
  then have "readEvents_loop st readBuffer bytesTransferred index = Inr (rearmed st)"
    using assms(8)
    by (simp add: readEvents_loop.simps [of st readBuffer bytesTransferred index]
                  body_create_record [OF assms(2-7)])
  then have "readEvents st0 readBuffer bytesTransferred = Inr (rearmed st)"
    using assms(1) by (simp add: readEvents_def)
  then show ?thesis
    using assms(8)
    by (simp add: readHandler_def rearmed_def monitorFilesystemEvent_def emit_def readsIssued_def
                  rearmActions_def)
qed

theorem failed_rearm_next_read_still_issued_witness:
  "readHandler None (otherDeleteRecord @ createRecord @ deleteRecord) 96 (runningMonitor 2 [])
   = Inr ((runningMonitor 2 [])\<lparr>fileWatchDesc := - 1,
            trace := [DirEventLine ''f.txt'' ''/tmp/d'' (getEventString IN_CREATE),
                      CoutLine ''Remove inotify watcher on '' ''f.txt'', InotifyRmWatch 2,
                      InotifyAddWatch ''/tmp/d/f.txt'' (- 1),
                      CerrLine ''inotify_add_watch failed for file: '' ''/tmp/d/f.txt'',
                      AsyncReadSome]\<rparr>)
   \<and> readHandler None (createRecord @ deleteRecord) 64 (runningMonitor 2 [])
   = Inr ((runningMonitor 2 [])\<lparr>fileWatchDesc := - 1,
            trace := [DirEventLine ''f.txt'' ''/tmp/d'' (getEventString IN_CREATE),
                      CoutLine ''Remove inotify watcher on '' ''f.txt'', InotifyRmWatch 2,
                      InotifyAddWatch ''/tmp/d/f.txt'' (- 1),
                      CerrLine ''inotify_add_watch failed for file: '' ''/tmp/d/f.txt'',
                      AsyncReadSome]\<rparr>)
   \<and> readHandler (Some ''Bad file descriptor'') (createRecord @ deleteRecord) 64 (runningMonitor 2 [])
   = Inr ((runningMonitor 2 [])\<lparr>trace := [CerrLine ''Callback Error: '' ''Bad file descriptor'']\<rparr>)"
proof -
  let ?buf = "otherDeleteRecord @ createRecord @ deleteRecord"
  have reach: "readEvents_loop (runningMonitor 2 []) ?buf 96 0
               = readEvents_loop (runningMonitor 2 []) ?buf 96 32"
    by (subst readEvents_loop.simps)
       (simp add: readEvents_body_def example_defs decode_defs IN_defs Let_def)
  have h: "memcpy_event ?buf 32
           = Some \<lparr>ev_wd = 1, ev_mask = IN_CREATE, ev_cookie = 0, ev_len = 16\<rparr>"
    by (simp add: example_defs decode_defs IN_defs)
  have c: "cstring ?buf (32 + iEventSize) = Some (fileName (runningMonitor 2 []))"
    by (simp add: example_defs decode_defs)
  have h0: "memcpy_event (createRecord @ deleteRecord) 0
           = Some \<lparr>ev_wd = 1, ev_mask = IN_CREATE, ev_cookie = 0, ev_len = 16\<rparr>"
    by (simp add: example_defs decode_defs IN_defs)
  have c0: "cstring (createRecord @ deleteRecord) (0 + iEventSize) = Some (fileName (runningMonitor 2 []))"
    by (simp add: example_defs decode_defs)
  show ?thesis
    using failed_rearm_next_read_still_issued [OF reach h _ _ _ c, of "''x''"]
      failed_rearm_next_read_still_issued [OF refl h0 _ _ _ c0, of 64 "''Bad file descriptor''"]
    by (simp add: runningMonitor_def iEventSize_def nextAddResult_def rearmActions_def)
qed

section \<open>Moved-to and moved-from records\<close>

text \<open>
  C1 as stated does not hold: a moved-to record for the target file arrives while no
  file watch exists, and none is created (no registration is attempted); a
  moved-from record for the target file arrives while file watch 2 is live, and it
  stays registered.
\<close>

theorem moved_in_not_rearmed_moved_out_kept_counterexample:
  "readEvents (runningMonitor (- 1) [7]) movedToRecord 32
   = Inr \<lparr>inotifyFd = 3, dirWatchDesc = 1, fileWatchDesc = - 1, pathname = ''/tmp/d/f.txt'',
          parentPath = ''/tmp/d'', fileName = ''f.txt'', addWatchResults = [7],
          trace = [DirEventLine ''f.txt'' ''/tmp/d'' (getEventString IN_MOVED_TO)]\<rparr>
   \<and> readEvents (runningMonitor 2 [7]) movedFromRecord 32
   = Inr \<lparr>inotifyFd = 3, dirWatchDesc = 1, fileWatchDesc = 2, pathname = ''/tmp/d/f.txt'',
          parentPath = ''/tmp/d'', fileName = ''f.txt'', addWatchResults = [7],
          trace = [DirEventLine ''f.txt'' ''/tmp/d'' (getEventString IN_MOVED_FROM)]\<rparr>"
  by (simp add: readEvents_def readEvents_loop.simps readEvents_body_def
                example_defs decode_defs IN_defs mon_defs Let_def)

text \<open>
  C1, amended. For a complete record of the directory watch whose name is the target
  file name, after the event is dispatched: a create record removes the file watch
  if there is one and registers the file again; a delete record and a moved-to
  record (\<^verbatim>\<open>IN_MOVED_TO\<close> shares the case of \<^verbatim>\<open>IN_DELETE\<close>) remove the file watch and
  register nothing; a moved-from record, like every other event, changes no watch.
\<close>

theorem target_record_watch_transitions:
  fixes st :: monitor
  defines "st1 \<equiv> \<lambda>m. emit (DirEventLine (fileName st) (parentPath st) (getEventString m)) st"
  assumes "memcpy_event readBuffer index = Some event"
    and "ev_wd event = dirWatchDesc st"
    and "ev_len event \<noteq> 0"
    and "index + iEventSize + unat (ev_len event) \<le> bytesTransferred"
    and "cstring readBuffer (index + iEventSize) = Some (fileName st)"
  shows "(ev_mask event = IN_CREATE \<longrightarrow>
            readEvents_body st readBuffer bytesTransferred index
            = (if nextAddResult st = - 1 then Return (rearmed st)
               else Continue (index + (iEventSize + unat (ev_len event))) (rearmed st)))
       \<and> (ev_mask event = IN_DELETE \<or> ev_mask event = IN_MOVED_TO \<longrightarrow>
            readEvents_body st readBuffer bytesTransferred index
            = Continue (index + (iEventSize + unat (ev_len event)))
                (rmWatchOnFile (st1 (ev_mask event)))
            \<and> fileWatchDesc (rmWatchOnFile (st1 (ev_mask event))) = - 1
            \<and> addWatchResults (rmWatchOnFile (st1 (ev_mask event))) = addWatchResults st)
       \<and> (ev_mask event \<noteq> IN_CREATE \<and> ev_mask event \<noteq> IN_DELETE \<and> ev_mask event \<noteq> IN_MOVED_TO \<longrightarrow>
            readEvents_body st readBuffer bytesTransferred index
            = Continue (index + (iEventSize + unat (ev_len event))) (st1 (ev_mask event))
            \<and> fileWatchDesc (st1 (ev_mask event)) = fileWatchDesc st
            \<and> addWatchResults (st1 (ev_mask event)) = addWatchResults st)
       \<and> IN_MOVED_FROM \<noteq> IN_CREATE \<and> IN_MOVED_FROM \<noteq> IN_DELETE \<and> IN_MOVED_FROM \<noteq> IN_MOVED_TO
       \<and> IN_MOVED_TO \<noteq> IN_CREATE"
proof -
  have c: "ev_mask event = IN_CREATE \<longrightarrow>
            readEvents_body st readBuffer bytesTransferred index
            = (if nextAddResult st = - 1 then Return (rearmed st)
               else Continue (index + (iEventSize + unat (ev_len event))) (rearmed st))"
    using body_create_record [OF assms(2-6)] by simp
  have d: "ev_mask event = IN_DELETE \<or> ev_mask event = IN_MOVED_TO \<longrightarrow>
            readEvents_body st readBuffer bytesTransferred index
            = Continue (index + (iEventSize + unat (ev_len event)))
                (rmWatchOnFile (st1 (ev_mask event)))
            \<and> fileWatchDesc (rmWatchOnFile (st1 (ev_mask event))) = - 1
            \<and> addWatchResults (rmWatchOnFile (st1 (ev_mask event))) = addWatchResults st"
    by (auto simp: body_target_record [OF assms(2-6)] st1_def IN_defs mon_defs Let_def)
  have e: "ev_mask event \<noteq> IN_CREATE \<and> ev_mask event \<noteq> IN_DELETE \<and> ev_mask event \<noteq> IN_MOVED_TO \<longrightarrow>
            readEvents_body st readBuffer bytesTransferred index
            = Continue (index + (iEventSize + unat (ev_len event))) (st1 (ev_mask event))
            \<and> fileWatchDesc (st1 (ev_mask event)) = fileWatchDesc st
            \<and> addWatchResults (st1 (ev_mask event)) = addWatchResults st"
    by (simp add: body_target_record [OF assms(2-6)] st1_def emit_def)
  from c d e show ?thesis by (simp add: IN_defs)
qed

theorem target_record_watch_transitions_witness:
  "readEvents_body (runningMonitor 2 [7]) movedToRecord 32 0
   = Continue 32 ((runningMonitor 2 [7])
       \<lparr>fileWatchDesc := - 1,
        trace := [DirEventLine ''f.txt'' ''/tmp/d'' (getEventString IN_MOVED_TO),
                  CoutLine ''Remove inotify watcher on '' ''f.txt'', InotifyRmWatch 2]\<rparr>)
   \<and> readEvents_body (runningMonitor 2 [7]) deleteRecord 32 0
   = Continue 32 ((runningMonitor 2 [7])
       \<lparr>fileWatchDesc := - 1,
        trace := [DirEventLine ''f.txt'' ''/tmp/d'' (getEventString IN_DELETE),
                  CoutLine ''Remove inotify watcher on '' ''f.txt'', InotifyRmWatch 2]\<rparr>)
   \<and> readEvents_body (runningMonitor 2 [7]) movedFromRecord 32 0
   = Continue 32 ((runningMonitor 2 [7])
       \<lparr>trace := [DirEventLine ''f.txt'' ''/tmp/d'' (getEventString IN_MOVED_FROM)]\<rparr>)
   \<and> readEvents_body (runningMonitor 2 [7]) createRecord 32 0
   = Continue 32 ((runningMonitor 2 [])
       \<lparr>fileWatchDesc := 7,
        trace := [DirEventLine ''f.txt'' ''/tmp/d'' (getEventString IN_CREATE),
                  CoutLine ''Remove inotify watcher on '' ''f.txt'', InotifyRmWatch 2,
                  InotifyAddWatch ''/tmp/d/f.txt'' 7,
                  CoutLine ''Add inotify watcher on '' ''f.txt'']\<rparr>)"
proof -
  have h1: "memcpy_event movedToRecord 0
            = Some \<lparr>ev_wd = 1, ev_mask = IN_MOVED_TO, ev_cookie = 0, ev_len = 16\<rparr>"
    by (simp add: example_defs decode_defs IN_defs)
  have h2: "memcpy_event movedFromRecord 0
            = Some \<lparr>ev_wd = 1, ev_mask = IN_MOVED_FROM, ev_cookie = 0, ev_len = 16\<rparr>"
    by (simp add: example_defs decode_defs IN_defs)
  have h3: "memcpy_event deleteRecord 0
            = Some \<lparr>ev_wd = 1, ev_mask = IN_DELETE, ev_cookie = 0, ev_len = 16\<rparr>"
    by (simp add: example_defs decode_defs IN_defs)
  have h4: "memcpy_event createRecord 0
            = Some \<lparr>ev_wd = 1, ev_mask = IN_CREATE, ev_cookie = 0, ev_len = 16\<rparr>"
    by (simp add: example_defs decode_defs IN_defs)
  have c1: "cstring movedToRecord (0 + iEventSize) = Some ''f.txt''"
    by (simp add: example_defs decode_defs)
  have c2: "cstring movedFromRecord (0 + iEventSize) = Some ''f.txt''"
    by (simp add: example_defs decode_defs)
  have c3: "cstring deleteRecord (0 + iEventSize) = Some ''f.txt''"
    by (simp add: example_defs decode_defs)
  have c4: "cstring createRecord (0 + iEventSize) = Some ''f.txt''"
    by (simp add: example_defs decode_defs)
  have ne: "IN_MOVED_FROM \<noteq> IN_CREATE" "IN_MOVED_FROM \<noteq> IN_DELETE" "IN_MOVED_FROM \<noteq> IN_MOVED_TO"
    by (simp_all add: IN_defs)
  show ?thesis
    using target_record_watch_transitions [OF h1, of "runningMonitor 2 [7]" 32]
      target_record_watch_transitions [OF h3, of "runningMonitor 2 [7]" 32]
      target_record_watch_transitions [OF h2, of "runningMonitor 2 [7]" 32]
      target_record_watch_transitions [OF h4, of "runningMonitor 2 [7]" 32]
      c1 c2 c3 c4 ne
    by (simp add: runningMonitor_def iEventSize_def mon_defs rearmed_def nextAddResult_def
                  rearmActions_def)
qed

section \<open>Re-arming the file watch on a create record\<close>

text \<open>
  C5 as stated does not hold: here a file watch is live, the create record for the
  target file is processed, the registration fails, and no file watch is live
  afterwards (neither in the monitor nor in the kernel's table).
\<close>

theorem create_without_file_watch_counterexample:
  "nextAddResult (runningMonitor 2 []) = - 1
   \<and> readEvents (runningMonitor 2 []) createRecord 32
     = Inr \<lparr>inotifyFd = 3, dirWatchDesc = 1, fileWatchDesc = - 1, pathname = ''/tmp/d/f.txt'',
            parentPath = ''/tmp/d'', fileName = ''f.txt'', addWatchResults = [],
            trace = [DirEventLine ''f.txt'' ''/tmp/d'' (getEventString IN_CREATE),
                     CoutLine ''Remove inotify watcher on '' ''f.txt'', InotifyRmWatch 2,
                     InotifyAddWatch ''/tmp/d/f.txt'' (- 1),
                     CerrLine ''inotify_add_watch failed for file: '' ''/tmp/d/f.txt'']\<rparr>
   \<and> watchesOn ''/tmp/d/f.txt''
        (kernelWatches [(1, ''/tmp/d''), (2, ''/tmp/d/f.txt'')]
           [DirEventLine ''f.txt'' ''/tmp/d'' (getEventString IN_CREATE),
            CoutLine ''Remove inotify watcher on '' ''f.txt'', InotifyRmWatch 2,
            InotifyAddWatch ''/tmp/d/f.txt'' (- 1),
            CerrLine ''inotify_add_watch failed for file: '' ''/tmp/d/f.txt'']) = []"
  by (simp add: readEvents_def readEvents_loop.simps readEvents_body_def
                example_defs decode_defs IN_defs mon_defs Let_def nextAddResult_def
                kernelWatches_def watchesOn_def)

text \<open>
  C5, amended. Let the kernel's watches on the file be exactly the monitor's live file
  descriptor, if any. Processing a complete create record of the directory watch for
  the target file first removes that watch, then registers the file once. When the
  registration succeeds, exactly one file watch is live afterwards, the new one,
  also when one was live before (a duplicate create); when it fails, none is, and
  \<^verbatim>\<open>readEvents\<close> returns. In both cases there are never two, the monitor's
  descriptor still tracks the kernel's table, the directory descriptor is untouched
  and the directory has no more watches than before.
\<close>

theorem create_rearms_one_file_watch:
  fixes st :: monitor and tbl :: watchTable
  defines "r \<equiv> nextAddResult st"
  defines "st' \<equiv> st\<lparr>fileWatchDesc := nextAddResult st, addWatchResults := tl (addWatchResults st),
                     trace := trace st @ rearmActions st (nextAddResult st)\<rparr>"
  defines "tbl' \<equiv> kernelWatches tbl (rearmActions st (nextAddResult st))"
  assumes "memcpy_event readBuffer index = Some event"
    and "ev_wd event = dirWatchDesc st"
    and "ev_len event \<noteq> 0"
    and "index + iEventSize + unat (ev_len event) \<le> bytesTransferred"
    and "cstring readBuffer (index + iEventSize) = Some (fileName st)"
    and "ev_mask event = IN_CREATE"
    and "watchesOn (pathname st) tbl = filter (\<lambda>w. w \<noteq> - 1) [fileWatchDesc st]"
    and "pathname st \<noteq> parentPath st"
  shows "readEvents_body st readBuffer bytesTransferred index
         = (if r = - 1 then Return st'
            else Continue (index + (iEventSize + unat (ev_len event))) st')
       \<and> watchesOn (pathname st) tbl' = (if r = - 1 then [] else [r])
       \<and> watchesOn (pathname st') tbl' = filter (\<lambda>w. w \<noteq> - 1) [fileWatchDesc st']
       \<and> length (watchesOn (pathname st) tbl') \<le> 1
       \<and> length (watchesOn (parentPath st) tbl') \<le> length (watchesOn (parentPath st) tbl)
       \<and> dirWatchDesc st' = dirWatchDesc st"
proof -
  have b: "readEvents_body st readBuffer bytesTransferred index
         = (if r = - 1 then Return st'
            else Continue (index + (iEventSize + unat (ev_len event))) st')"
    by (simp add: body_create_record [OF assms(4-9)] rearmed_def r_def st'_def)
  have w: "watchesOn (pathname st) tbl' = (if r = - 1 then [] else [r])"
    using assms(10)
    by (simp add: tbl'_def r_def kernelWatches_def rearmActions_def watchesOn_remove watchesOn_Cons)
  have le2: "length (filter P (filter Q xs)) \<le> length xs" for P Q and xs :: "cint list"
    by (rule le_trans [OF length_filter_le length_filter_le])
  have d: "length (watchesOn (parentPath st) tbl') \<le> length (watchesOn (parentPath st) tbl)"
    using assms(11)
    by (simp add: tbl'_def kernelWatches_def rearmActions_def watchesOn_remove watchesOn_Cons le2)
  from b w d show ?thesis by (simp add: st'_def r_def)
qed

theorem create_rearms_one_file_watch_witness:
  "readEvents_body (runningMonitor 2 [7]) createRecord 32 0
   = Continue 32 ((runningMonitor 2 [])\<lparr>fileWatchDesc := 7,
        trace := [DirEventLine ''f.txt'' ''/tmp/d'' (getEventString IN_CREATE),
                  CoutLine ''Remove inotify watcher on '' ''f.txt'', InotifyRmWatch 2,
                  InotifyAddWatch ''/tmp/d/f.txt'' 7,
                  CoutLine ''Add inotify watcher on '' ''f.txt'']\<rparr>)
   \<and> watchesOn ''/tmp/d/f.txt''
        (kernelWatches [(1, ''/tmp/d''), (2, ''/tmp/d/f.txt'')]
           (rearmActions (runningMonitor 2 [7]) 7)) = [7]"
proof -
  have h: "memcpy_event createRecord 0
           = Some \<lparr>ev_wd = 1, ev_mask = IN_CREATE, ev_cookie = 0, ev_len = 16\<rparr>"
    by (simp add: example_defs decode_defs IN_defs)
  have c: "cstring createRecord (0 + iEventSize) = Some (fileName (runningMonitor 2 [7]))"
    by (simp add: example_defs decode_defs)
  have t: "watchesOn (pathname (runningMonitor 2 [7])) [(1, ''/tmp/d''), (2, ''/tmp/d/f.txt'')]
           = filter (\<lambda>w. w \<noteq> - 1) [fileWatchDesc (runningMonitor 2 [7])]"
    by (simp add: runningMonitor_def watchesOn_def)
  show ?thesis
    using create_rearms_one_file_watch [OF h _ _ _ c _ t, of 32]
    by (simp add: runningMonitor_def iEventSize_def nextAddResult_def rearmActions_def)
qed

section \<open>Reading the name of a record\<close>

text \<open>
  C4 as stated does not hold: the record declares a name of four bytes,
  \<^verbatim>\<open>f.tx\<close>, none of them NUL, and twenty bytes are valid. The name that
  \<^verbatim>\<open>readEvents\<close> reads is \<^verbatim>\<open>f.txt\<close>, with a fifth character from beyond the
  field and beyond the valid bytes, and the record is dispatched as an event of the
  target file.
\<close>

theorem name_read_past_field_counterexample:
  "memcpy_event unterminatedName 0 = Some \<lparr>ev_wd = 1, ev_mask = IN_MODIFY, ev_cookie = 0, ev_len = 4\<rparr>
   \<and> take 4 (drop 16 unterminatedName) = ''f.tx''
   \<and> cstring unterminatedName 16 = Some ''f.txt''
   \<and> readEvents (runningMonitor 2 []) unterminatedName 20
     = Inr \<lparr>inotifyFd = 3, dirWatchDesc = 1, fileWatchDesc = 2, pathname = ''/tmp/d/f.txt'',
            parentPath = ''/tmp/d'', fileName = ''f.txt'', addWatchResults = [],
            trace = [DirEventLine ''f.txt'' ''/tmp/d'' (getEventString IN_MODIFY)]\<rparr>"
  by (simp add: readEvents_def readEvents_loop.simps readEvents_body_def unterminatedName_def
                example_defs decode_defs IN_defs mon_defs Let_def)

text \<open>
  C4, amended. When the \<open>len\<close> bytes of the name field of the record at \<open>index\<close>
  contain a NUL character, the name is the characters of the field before its first
  NUL, and the iteration depends on no byte outside the header and the field: in any
  other buffer with the same bytes there, it gives the same result. The read is not
  truncated at \<open>len\<close>.
\<close>

theorem name_read_from_terminated_field:
  assumes "memcpy_event readBuffer index = Some event"
    and "CHR 0x00 \<in> set (take (unat (ev_len event)) (drop (index + iEventSize) readBuffer))"
    and "take (iEventSize + unat (ev_len event)) (drop index other)
         = take (iEventSize + unat (ev_len event)) (drop index readBuffer)"
  shows "cstring readBuffer (index + iEventSize)
         = Some (takeWhile (\<lambda>c. c \<noteq> CHR 0x00)
                   (take (unat (ev_len event)) (drop (index + iEventSize) readBuffer)))
       \<and> readEvents_body st other bytesTransferred index
         = readEvents_body st readBuffer bytesTransferred index"
proof -
  have a: "cstring readBuffer (index + iEventSize)
         = Some (takeWhile (\<lambda>c. c \<noteq> CHR 0x00)
                   (take (unat (ev_len event)) (drop (index + iEventSize) readBuffer)))"
    by (rule cstring_in_field [OF assms(2)])
  have f: "take (unat (ev_len event)) (drop (index + iEventSize) other)
           = take (unat (ev_len event)) (drop (index + iEventSize) readBuffer)"
    by (rule field_same_bytes [OF assms(3)])
  have b: "cstring other (index + iEventSize) = cstring readBuffer (index + iEventSize)"
    using cstring_in_field [of "unat (ev_len event)" "index + iEventSize" other] assms(2) a f
    by simp
  have m: "memcpy_event other index = Some event"
    by (rule memcpy_event_same_bytes [OF assms(1,3)])
  have "readEvents_body st other bytesTransferred index
         = readEvents_body st readBuffer bytesTransferred index"
    unfolding readEvents_body_def m assms(1) b by (rule refl)
  with a show ?thesis by simp
qed

theorem name_read_from_terminated_field_witness:
  "cstring createRecord 16 = Some ''f.txt''
   \<and> readEvents_body (runningMonitor 2 [7]) (createRecord @ ''overwritten'') 32 0
     = readEvents_body (runningMonitor 2 [7]) (createRecord @ deleteRecord) 32 0"
proof -
  have h: "memcpy_event (createRecord @ deleteRecord) 0
           = Some \<lparr>ev_wd = 1, ev_mask = IN_CREATE, ev_cookie = 0, ev_len = 16\<rparr>"
    by (simp add: example_defs decode_defs IN_defs)
  have n: "CHR 0x00 \<in> set (take (unat (ev_len \<lparr>ev_wd = 1, ev_mask = IN_CREATE, ev_cookie = 0, ev_len = 16\<rparr>))
                             (drop (0 + iEventSize) (createRecord @ deleteRecord)))"
    by (simp add: example_defs iEventSize_def)
  have s: "take (iEventSize + unat (ev_len \<lparr>ev_wd = 1, ev_mask = IN_CREATE, ev_cookie = 0, ev_len = 16\<rparr>))
             (drop 0 (createRecord @ ''overwritten''))
           = take (iEventSize + unat (ev_len \<lparr>ev_wd = 1, ev_mask = IN_CREATE, ev_cookie = 0, ev_len = 16\<rparr>))
               (drop 0 (createRecord @ deleteRecord))"
    by (simp add: example_defs iEventSize_def)
  have c: "cstring createRecord 16 = Some ''f.txt''"
    by (simp add: example_defs decode_defs)
  show ?thesis
    using name_read_from_terminated_field [OF h n s, of "runningMonitor 2 [7]" 32] c
    by simp
qed

section \<open>Complete records and a truncated trailing fragment\<close>

text \<open>
  C3 as stated does not hold: the sixteen valid bytes are a header with the file
  watch's descriptor that declares eight bytes of name, so the record is truncated,
  and \<^verbatim>\<open>readEvents\<close> dispatches it as an event of the file. Only the branch of the
  directory watch compares \<open>len\<close> with the number of valid bytes.
\<close>

theorem truncated_file_fragment_dispatched_counterexample:
  "memcpy_event truncatedFileFragment 0
   = Some \<lparr>ev_wd = 2, ev_mask = IN_MODIFY, ev_cookie = 0, ev_len = 8\<rparr>
   \<and> length truncatedFileFragment = 16
   \<and> readEvents (runningMonitor 2 []) truncatedFileFragment 16
     = Inr \<lparr>inotifyFd = 3, dirWatchDesc = 1, fileWatchDesc = 2, pathname = ''/tmp/d/f.txt'',
            parentPath = ''/tmp/d'', fileName = ''f.txt'', addWatchResults = [],
            trace = [FileEventLine ''f.txt'' (getEventString IN_MODIFY)]\<rparr>"
  by (simp add: readEvents_def readEvents_loop.simps readEvents_body_def truncatedFileFragment_def
                example_defs decode_defs IN_defs mon_defs Let_def)

text \<open>
  C3, amended. Let the valid bytes of the buffer be well-formed records one after
  the other, followed by a fragment that is shorter than a header, or whose header
  declares more name bytes than remain and does not carry the file watch's
  descriptor; bytes beyond the valid ones may hold anything. Then \<^verbatim>\<open>readEvents\<close>
  returns normally and has handled exactly the complete records, in order, as the
  specification's handling of decoded records does (ending early only where adding
  the file watch fails); the fragment is neither dispatched nor acted upon.
\<close>

theorem complete_records_handled_fragment_dropped:
  assumes "\<forall>r \<in> set recs. wellFormed r"
    and "fragmentDropped (specHandleRecords st recs) frag"
  shows "readEvents st (wireBytes recs @ frag @ stale) (length (wireBytes recs) + length frag)
         = Inr (specHandleRecords st recs)"
  using records_loop [OF assms, where pre = "[]" and stale = stale]
  by (simp add: readEvents_def)

theorem complete_records_handled_fragment_dropped_witness:
  "readEvents (runningMonitor 2 []) (wireBytes modifyThenDelete @ truncatedDirFragment @ [])
     (length (wireBytes modifyThenDelete) + length truncatedDirFragment)
   = Inr ((runningMonitor 2 [])\<lparr>fileWatchDesc := - 1,
            trace := [FileEventLine ''f.txt'' (getEventString IN_MODIFY),
                      DirEventLine ''f.txt'' ''/tmp/d'' (getEventString IN_DELETE),
                      CoutLine ''Remove inotify watcher on '' ''f.txt'', InotifyRmWatch 2]\<rparr>)
   \<and> readEvents (runningMonitor 2 []) (wireBytes modifyThenDelete @ ''abc'' @ [])
     (length (wireBytes modifyThenDelete) + length ''abc'')
   = Inr ((runningMonitor 2 [])\<lparr>fileWatchDesc := - 1,
            trace := [FileEventLine ''f.txt'' (getEventString IN_MODIFY),
                      DirEventLine ''f.txt'' ''/tmp/d'' (getEventString IN_DELETE),
                      CoutLine ''Remove inotify watcher on '' ''f.txt'', InotifyRmWatch 2]\<rparr>)
   \<and> wireBytes modifyThenDelete
     = [CHR 0x02, CHR 0x00, CHR 0x00, CHR 0x00, CHR 0x02, CHR 0x00, CHR 0x00, CHR 0x00,
        CHR 0x00, CHR 0x00, CHR 0x00, CHR 0x00, CHR 0x00, CHR 0x00, CHR 0x00, CHR 0x00]
       @ deleteRecord
   \<and> length (wireBytes modifyThenDelete) + length truncatedDirFragment = 68"
proof -
  have wf: "\<forall>r \<in> set modifyThenDelete. wellFormed r"
    by (simp add: modifyThenDelete_def targetName16_def)
  have h: "specHandleRecords (runningMonitor 2 []) modifyThenDelete
           = (runningMonitor 2 [])\<lparr>fileWatchDesc := - 1,
               trace := [FileEventLine ''f.txt'' (getEventString IN_MODIFY),
                         DirEventLine ''f.txt'' ''/tmp/d'' (getEventString IN_DELETE),
                         CoutLine ''Remove inotify watcher on '' ''f.txt'', InotifyRmWatch 2]\<rparr>"
    by (simp add: modifyThenDelete_def example_defs mon_defs IN_defs Let_def)
  have f1: "fragmentDropped (specHandleRecords (runningMonitor 2 []) modifyThenDelete) truncatedDirFragment"
    unfolding h
    by (simp add: fragmentDropped_def truncatedDirFragment_def example_defs decode_defs)
  have f2: "fragmentDropped (specHandleRecords (runningMonitor 2 []) modifyThenDelete) ''abc''"
    by (simp add: fragmentDropped_def iEventSize_def)
  have w: "wireBytes modifyThenDelete
     = [CHR 0x02, CHR 0x00, CHR 0x00, CHR 0x00, CHR 0x02, CHR 0x00, CHR 0x00, CHR 0x00,
        CHR 0x00, CHR 0x00, CHR 0x00, CHR 0x00, CHR 0x00, CHR 0x00, CHR 0x00, CHR 0x00]
       @ deleteRecord"
    by (simp add: wireBytes_def modifyThenDelete_def eventBytes_def char_le32_def example_defs
                  IN_defs char_of_eq_iff)
  have l: "length (wireBytes modifyThenDelete) + length truncatedDirFragment = 68"
    unfolding w by (simp add: truncatedDirFragment_def example_defs)
  show ?thesis
    using complete_records_handled_fragment_dropped [OF wf f1, of "[]"]
      complete_records_handled_fragment_dropped [OF wf f2, of "[]"] h w l
    by simp
qed

end
